theory Spec2Isabelle
  imports Complex_Main "HOL-Library.Sublist" "HOL-Library.Log_Nat" "HOL-Library.Word"
begin

section \<open>Cricket AI: pitch physics, tactical scorer, match-up statistics\<close>

text \<open>
  The development embeds three Python modules.
  \<^item> \<^verbatim>\<open>app.py\<close>: the class \<^verbatim>\<open>CricketAI\<close> with \<^verbatim>\<open>calculate_pitch_physics\<close> and
    \<^verbatim>\<open>player_dna_eval\<close>, and the table \<^verbatim>\<open>VENUES_DATABASE\<close>.
  \<^item> \<^verbatim>\<open>robust_cricai.py\<close>: \<^verbatim>\<open>analyze_matchup\<close>.
  \<^item> \<^verbatim>\<open>robust_cricaii.py\<close>: \<^verbatim>\<open>get_cleaned_data\<close> and the phase binning of the
    acceleration profile.

  Numbers: Python's unbounded \<^verbatim>\<open>int\<close> is \<^typ>\<open>int\<close>, a row count is \<^typ>\<open>nat\<close>, and a
  cell of an \<^verbatim>\<open>int64\<close> column is a \<^typ>\<open>64 word\<close>, read as a signed number by \<open>sint\<close>;
  sums over such a column wrap around.
  A Python \<^verbatim>\<open>float\<close> is a binary64 number, modelled by the real number it denotes. A
  division, product or difference of floats is the exact result rounded to binary64 by
  \<open>fl\<close> below. A decimal literal stands for the decimal it spells; every comparison of
  the source against a literal (\<^verbatim>\<open>> 0.7\<close>, \<^verbatim>\<open>> 31\<close>, \<^verbatim>\<open>> 70\<close>) is a comparison of reals.
\<close>

subsection \<open>Binary64 rounding\<close>

text \<open>
  \<open>rne\<close> rounds a real to the nearest integer, a tie to the even one. \<open>expo x\<close> is the
  binary exponent of a positive \<open>x\<close>, the integer \<open>e\<close> with \<open>2 powi e \<le> x < 2 powi (e + 1)\<close>,
  computed from the bit length of the integer part of \<open>x\<close> or of \<open>1 / x\<close>.
  \<open>fl x\<close> keeps 53 significant bits of \<open>x\<close>, and no bit below \<open>2 powi (- 1074)\<close>, the
  spacing of the subnormal numbers. The largest binary64 number is below \<open>2 ^ 1024\<close>: a
  result of that size or more is outside this model (the source then yields \<^verbatim>\<open>inf\<close>
  or raises \<^verbatim>\<open>OverflowError\<close>).
\<close>

definition rne :: "real \<Rightarrow> int" where
  "rne x = (let n = \<lfloor>x\<rfloor>; r = x - real_of_int n
            in if r < 1 / 2 then n else if 1 / 2 < r then n + 1
               else if even n then n else n + 1)"

definition expo :: "real \<Rightarrow> int" where
  "expo x = (if 1 \<le> x then bitlen \<lfloor>x\<rfloor> - 1 else - bitlen (\<lceil>1 / x\<rceil> - 1))"

definition fl :: "real \<Rightarrow> real" where
  "fl x = (if x = 0 then 0
           else let e = max (expo \<bar>x\<bar> - 52) (- 1074)
                in real_of_int (rne (x / 2 powi e)) * 2 powi e)"

subsection \<open>Errors\<close>

text \<open>
  \<^verbatim>\<open>KeyError\<close> is the failed lookup of a venue name in the table, or of a column name
  in a data frame. \<^verbatim>\<open>ZeroDivision\<close> stands for a division whose divisor is zero, kept
  apart as an error value so that a theorem can say that no run performs one.
\<close>

datatype py_error = KeyError string | ZeroDivision

text \<open>The division \<^verbatim>\<open>a / b\<close> of two binary64 numbers, rounded.\<close>

definition truediv :: "real \<Rightarrow> real \<Rightarrow> py_error + real" where
  "truediv a b = (if b = 0 then Inl ZeroDivision else Inr (fl (a / b)))"

subsection \<open>The venue table (\<^verbatim>\<open>app.py\<close>, lines 9-14)\<close>

record venue =
  soil :: string
  clay :: real
  altitude :: real
  avg_temp :: real
  drainage :: string

definition VENUES_DATABASE :: "string \<rightharpoonup> venue" where
  "VENUES_DATABASE =
     [''Wankhede, Mumbai'' \<mapsto>
        \<lparr>soil = ''Red'', clay = 0.40, altitude = 10, avg_temp = 30, drainage = ''High''\<rparr>,
      ''Chepauk, Chennai'' \<mapsto>
        \<lparr>soil = ''Black'', clay = 0.70, altitude = 5, avg_temp = 33, drainage = ''Medium''\<rparr>,
      ''Perth (Optus), AUS'' \<mapsto>
        \<lparr>soil = ''Clay-Heavy'', clay = 0.80, altitude = 20, avg_temp = 28, drainage = ''Extreme''\<rparr>,
      ''Lord's, London'' \<mapsto>
        \<lparr>soil = ''Loam'', clay = 0.30, altitude = 35, avg_temp = 22, drainage = ''Low''\<rparr>]"

subsection \<open>Pitch physics (\<^verbatim>\<open>app.py\<close>, lines 19-35)\<close>

text \<open>The dictionary \<^verbatim>\<open>{"swing": .., "spin": .., "dew": ..}\<close> that the function returns.\<close>

record physics =
  swing :: real
  spin :: real
  dew :: real

text \<open>Line 23: \<^verbatim>\<open>0.4 + (0.4 if v['soil'] == "Black" and temp > 31 else 0)\<close>.\<close>

definition spin_index :: "venue \<Rightarrow> real \<Rightarrow> real" where
  "spin_index v temp = 0.4 + (if soil v = ''Black'' \<and> temp > 31 then 0.4 else 0)"

text \<open>
  Lines 27-29: base swing, altitude penalty, and the floor at zero. Each of the two
  divisions, the product and the difference is one rounded operation. \<^verbatim>\<open>max(0, x)\<close> is
  \<^verbatim>\<open>x\<close> when \<^verbatim>\<open>x > 0\<close> and 0 otherwise.
\<close>

definition base_swing :: "real \<Rightarrow> real \<Rightarrow> real" where
  "base_swing humidity clouds = fl (fl (humidity / 100) * fl (clouds / 100))"

definition altitude_penalty :: "venue \<Rightarrow> real" where
  "altitude_penalty v = fl (altitude v / 2000)"

definition swing_prob :: "venue \<Rightarrow> real \<Rightarrow> real \<Rightarrow> real" where
  "swing_prob v humidity clouds =
     max 0 (fl (base_swing humidity clouds - altitude_penalty v))"

text \<open>
  Lines 32-33. The source reads the wall clock (\<^verbatim>\<open>datetime.now().hour\<close>, twice in
  line 32); the hour that it reads is a parameter of the model, the same for both reads,
  and an integer between 0 and 23 in every run.
\<close>

definition is_night :: "int \<Rightarrow> bool" where
  "is_night hour = (hour \<ge> 18 \<or> hour \<le> 4)"

definition dew_factor :: "int \<Rightarrow> real \<Rightarrow> real" where
  "dew_factor hour humidity = (if is_night hour \<and> humidity > 70 then 0.85 else 0.1)"

text \<open>The body of the function once the venue record \<^verbatim>\<open>v\<close> is at hand.\<close>

definition pitch_physics :: "venue \<Rightarrow> real \<Rightarrow> real \<Rightarrow> real \<Rightarrow> int \<Rightarrow> physics" where
  "pitch_physics v temp humidity clouds hour =
     \<lparr>swing = swing_prob v humidity clouds,
      spin = spin_index v temp,
      dew = dew_factor hour humidity\<rparr>"

text \<open>Line 20 is a dictionary lookup: an unknown venue name raises \<^verbatim>\<open>KeyError\<close>.\<close>

definition calculate_pitch_physics ::
    "string \<Rightarrow> real \<Rightarrow> real \<Rightarrow> real \<Rightarrow> int \<Rightarrow> py_error + physics" where
  "calculate_pitch_physics venue_name temp humidity clouds hour =
     (case VENUES_DATABASE venue_name of
        None \<Rightarrow> Inl (KeyError venue_name)
      | Some v \<Rightarrow> Inr (pitch_physics v temp humidity clouds hour))"

subsection \<open>Tactical scorer (\<^verbatim>\<open>app.py\<close>, lines 38-57)\<close>

text \<open>
  The three alert texts. Each begins with an emoji, given here by its UTF-8 bytes, since
  a string is a list of 8-bit characters.
\<close>

definition CHOKE_ALERT :: string where
  "CHOKE_ALERT = [CHR 0xF0, CHR 0x9F, CHR 0x9A, CHR 0xA9] @
     '' **CHOKE ALERT:** High failure probability under dew/pressure.''"

definition SPIN_TRAP :: string where
  "SPIN_TRAP = [CHR 0xF0, CHR 0x9F, CHR 0x8C, CHR 0x80] @
     '' **SPIN TRAP:** Batter likely to be suffocated by spin on this surface.''"

definition ACCELERATOR :: string where
  "ACCELERATOR = [CHR 0xF0, CHR 0x9F, CHR 0x9A, CHR 0x80] @
     '' **ACCELERATOR:** Elite ability to shift gears in death overs.''"

text \<open>
  The function threads the pair \<^verbatim>\<open>(score, alerts)\<close> through three \<^verbatim>\<open>if\<close> statements.
  Each statement is one state transformer; the function is their composition, started
  at \<^verbatim>\<open>score = 80\<close>, \<^verbatim>\<open>alerts = []\<close>, and ended by the clamp of line 57.
\<close>

type_synonym scorer_state = "int \<times> string list"

definition choke_rule :: "int \<Rightarrow> physics \<Rightarrow> scorer_state \<Rightarrow> scorer_state" where
  "choke_rule pressure ph st =
     (case st of (score, alerts) \<Rightarrow>
        if pressure < 45 \<and> dew ph > 0.7 then (score - 25, alerts @ [CHOKE_ALERT])
        else (score, alerts))"

definition spin_rule :: "int \<Rightarrow> physics \<Rightarrow> scorer_state \<Rightarrow> scorer_state" where
  "spin_rule spin_skill ph st =
     (case st of (score, alerts) \<Rightarrow>
        if spin ph > 0.7 \<and> spin_skill < 50 then (score - 20, alerts @ [SPIN_TRAP])
        else (score, alerts))"

definition accel_rule :: "int \<Rightarrow> scorer_state \<Rightarrow> scorer_state" where
  "accel_rule accel_rating st =
     (case st of (score, alerts) \<Rightarrow>
        if accel_rating > 80 then (score + 15, alerts @ [ACCELERATOR])
        else (score, alerts))"

definition player_dna_eval ::
    "string \<Rightarrow> int \<Rightarrow> int \<Rightarrow> int \<Rightarrow> physics \<Rightarrow> int \<times> string list" where
  "player_dna_eval role pressure spin_skill accel_rating ph =
     (case accel_rule accel_rating (spin_rule spin_skill ph (choke_rule pressure ph (80, []))) of
        (score, alerts) \<Rightarrow> (max 0 (min 100 score), alerts))"

subsection \<open>Data frames and the delivery ledger\<close>

text \<open>
  A data frame is its column names and its rows. \<^verbatim>\<open>pd.DataFrame()\<close> is the frame with
  no column and no row. Indexing a frame by a column name it does not have raises
  \<^verbatim>\<open>KeyError\<close>.
\<close>

record 'r frame =
  columns :: "string list"
  rows :: "'r list"

definition DataFrame_empty :: "'r frame" where
  "DataFrame_empty = \<lparr>columns = [], rows = []\<rparr>"

text \<open>
  A row of the frame that the ball-by-ball files yield, with the columns the two
  analysis modules read. \<^verbatim>\<open>ball\<close> is the numeric column that \<^verbatim>\<open>pd.cut\<close> bins, any number
  as far as the code goes; \<^verbatim>\<open>runs_off_bat\<close> is an \<^verbatim>\<open>int64\<close> column; \<^verbatim>\<open>wicket_type\<close> is
  \<^verbatim>\<open>NaN\<close> (here \<open>None\<close>) on a ball without a dismissal. A field of a row is read only
  after the column of its name has been found in the frame.
\<close>

record delivery =
  striker :: string
  bowler :: string
  ball :: real
  runs_off_bat :: "64 word"
  wicket_type :: "string option"

type_synonym ledger = "delivery frame"

subsection \<open>Head to head (\<^verbatim>\<open>robust_cricai.py\<close>, lines 18-33)\<close>

text \<open>The dictionary \<^verbatim>\<open>stats\<close>, one field per key.\<close>

record matchup_stats =
  balls_faced :: nat
  runs_scored :: "64 word"
  dismissals :: nat
  dots :: nat
  boundaries :: nat
  strike_rate :: real

text \<open>Line 20: the boolean mask \<^verbatim>\<open>(df['striker'] == batsman) & (df['bowler'] == bowler)\<close>.\<close>

definition h2h_rows :: "delivery list \<Rightarrow> string \<Rightarrow> string \<Rightarrow> delivery list" where
  "h2h_rows rs batsman bowler_name =
     filter (\<lambda>r. striker r = batsman \<and> bowler r = bowler_name) rs"

text \<open>
  The function. The columns are looked up in the order in which the source indexes
  them: \<^verbatim>\<open>striker\<close> and \<^verbatim>\<open>bowler\<close> in line 20, \<^verbatim>\<open>runs_off_bat\<close> and \<^verbatim>\<open>wicket_type\<close> in
  lines 27 and 28, which run only when the selection has rows. \<^verbatim>\<open>sum()\<close> adds the
  \<^verbatim>\<open>int64\<close> cells with wrap-around. In line 32 the sum and the row count are converted
  to binary64, divided, and the quotient is multiplied by 100.
\<close>

definition analyze_matchup ::
    "ledger \<Rightarrow> string \<Rightarrow> string \<Rightarrow> py_error + (matchup_stats option \<times> string)" where
  "analyze_matchup df batsman bowler_name =
     (if ''striker'' \<notin> set (columns df) then Inl (KeyError ''striker'')
      else if ''bowler'' \<notin> set (columns df) then Inl (KeyError ''bowler'')
      else
        let h2h = h2h_rows (rows df) batsman bowler_name in
        if h2h = [] then
          Inr (None, ''No historical H2H data found. Switching to Skill-Type analysis...'')
        else if ''runs_off_bat'' \<notin> set (columns df) then Inl (KeyError ''runs_off_bat'')
        else if ''wicket_type'' \<notin> set (columns df) then Inl (KeyError ''wicket_type'')
        else
          let balls = length h2h;
              runs = sum_list (map runs_off_bat h2h);
              outs = length (filter (\<lambda>r. wicket_type r \<noteq> None) h2h);
              dot_count = length (filter (\<lambda>r. runs_off_bat r = 0) h2h);
              fours_sixes = length (filter (\<lambda>r. runs_off_bat r \<in> {4, 6}) h2h)
          in case truediv (fl (real_of_int (sint runs))) (fl (real balls)) of
               Inl e \<Rightarrow> Inl e
             | Inr q \<Rightarrow>
                 Inr (Some \<lparr>balls_faced = balls, runs_scored = runs, dismissals = outs,
                            dots = dot_count, boundaries = fours_sixes,
                            strike_rate = fl (q * 100)\<rparr>,
                      ''H2H Data Found''))"

subsection \<open>Phase binning (\<^verbatim>\<open>robust_cricaii.py\<close>, lines 55 and 78-80)\<close>

datatype phase = Powerplay | Middle | Death

text \<open>
  \<^verbatim>\<open>pd.cut(.., bins=[0, 6, 15, 20], labels=['Powerplay', 'Middle', 'Death'])\<close>: the bins
  are the intervals open on the left and closed on the right, and a value in none of
  them gets no label.
\<close>

definition pd_cut :: "real \<Rightarrow> phase option" where
  "pd_cut x =
     (if 0 < x \<and> x \<le> 6 then Some Powerplay
      else if 6 < x \<and> x \<le> 15 then Some Middle
      else if 15 < x \<and> x \<le> 20 then Some Death
      else None)"

text \<open>Line 55: \<^verbatim>\<open>b_stats = data[data['striker'] == batsman]\<close>, on the rows.\<close>

definition b_stats :: "delivery list \<Rightarrow> string \<Rightarrow> delivery list" where
  "b_stats rs batsman = filter (\<lambda>r. striker r = batsman) rs"

text \<open>
  Line 80: \<^verbatim>\<open>groupby('phase', observed=False)['runs_off_bat'].sum().reset_index()\<close>.
  With \<^verbatim>\<open>observed=False\<close> every category has its line in the result, in the order of
  the labels, and the sum over no rows is 0; an unlabelled row is in no group. The sum
  of a group adds \<^verbatim>\<open>int64\<close> cells with wrap-around.
\<close>

definition phase_runs :: "delivery list \<Rightarrow> phase \<Rightarrow> 64 word" where
  "phase_runs rs p = sum_list (map runs_off_bat (filter (\<lambda>r. pd_cut (ball r) = Some p) rs))"

text \<open>
  Lines 55 and 78-80 on a frame: \<^verbatim>\<open>striker\<close> is indexed in line 55, \<^verbatim>\<open>ball\<close> in line 79
  and \<^verbatim>\<open>runs_off_bat\<close> in line 80.
\<close>

definition phase_performance :: "ledger \<Rightarrow> string \<Rightarrow> py_error + (phase \<times> 64 word) list" where
  "phase_performance df batsman =
     (if ''striker'' \<notin> set (columns df) then Inl (KeyError ''striker'')
      else if ''ball'' \<notin> set (columns df) then Inl (KeyError ''ball'')
      else if ''runs_off_bat'' \<notin> set (columns df) then Inl (KeyError ''runs_off_bat'')
      else Inr (map (\<lambda>p. (p, phase_runs (b_stats (rows df) batsman) p))
                  [Powerplay, Middle, Death]))"

subsection \<open>Ingestion (\<^verbatim>\<open>robust_cricaii.py\<close>, lines 10-33)\<close>

text \<open>
  A member of the archive: its name, and what \<^verbatim>\<open>pd.read_csv(z.open(filename))\<close> gives
  for it, \<open>None\<close> when either call raises.
\<close>

type_synonym 'r zip_entry = "string \<times> 'r frame option"

text \<open>Line 20, the test on the file name.\<close>

definition is_match_file :: "string \<Rightarrow> bool" where
  "is_match_file filename =
     (suffix ''.csv'' filename \<and> \<not> suffix ''_info.csv'' filename \<and>
      \<not> sublist ''README'' filename)"

text \<open>Lines 18-28, the loop, with \<^verbatim>\<open>match_data_list\<close> as the accumulator.\<close>

fun collect_frames :: "'r zip_entry list \<Rightarrow> 'r frame list \<Rightarrow> 'r frame list" where
  "collect_frames [] match_data_list = match_data_list"
| "collect_frames ((filename, outcome) # es) match_data_list =
     (if is_match_file filename then
        (case outcome of
           None \<Rightarrow> collect_frames es match_data_list
         | Some df \<Rightarrow>
             if ''striker'' \<in> set (columns df) \<and> ''bowler'' \<in> set (columns df)
             then collect_frames es (match_data_list @ [df])
             else collect_frames es match_data_list)
      else collect_frames es match_data_list)"

text \<open>
  \<^verbatim>\<open>pd.concat(.., ignore_index=True)\<close> on a non-empty list: the rows of the frames one
  after the other, under the union of their columns, each column at the place of its
  first appearance.
\<close>

definition first_appearances :: "string list \<Rightarrow> string list" where
  "first_appearances cs = rev (remdups (rev cs))"

definition pd_concat :: "'r frame list \<Rightarrow> 'r frame" where
  "pd_concat dfs =
     \<lparr>columns = first_appearances (concat (map columns dfs)), rows = concat (map rows dfs)\<rparr>"

text \<open>
  The whole function. The argument is the archive's listing, \<open>None\<close> when the download
  or the unzipping raises. \<^verbatim>\<open>pd.concat\<close> raises on an empty list; that exception, like
  every other, ends in the handler of line 31, which returns the empty frame.
\<close>

definition get_cleaned_data :: "'r zip_entry list option \<Rightarrow> 'r frame" where
  "get_cleaned_data archive =
     (case archive of
        None \<Rightarrow> DataFrame_empty
      | Some namelist \<Rightarrow>
          (let match_data_list = collect_frames (take 150 namelist) []
           in if match_data_list = [] then DataFrame_empty else pd_concat match_data_list))"

text \<open>
  What the loop keeps of one member: the member passes the name test, reading it raised
  nothing, and the frame read has both columns (lines 20, 23 and 25). \<open>entry_rows\<close> are
  the rows of the frame read, none when reading raised.
\<close>

definition accepted :: "'r zip_entry \<Rightarrow> bool" where
  "accepted e =
     (is_match_file (fst e) \<and>
      (case snd e of
         None \<Rightarrow> False
       | Some df \<Rightarrow> ''striker'' \<in> set (columns df) \<and> ''bowler'' \<in> set (columns df)))"

definition entry_rows :: "'r zip_entry \<Rightarrow> 'r list" where
  "entry_rows e = (case snd e of None \<Rightarrow> [] | Some df \<Rightarrow> rows df)"

subsection \<open>Sample ledgers\<close>

text \<open>
  Seven deliveries in the shape of the ball-by-ball files, where \<^verbatim>\<open>ball\<close> counts overs
  from zero (\<^verbatim>\<open>0.1\<close> is the first ball of the first over), and a ledger of two
  deliveries with very large run cells. The theorems below are instantiated on them.
\<close>

definition ledger_columns :: "string list" where
  "ledger_columns = [''ball'', ''striker'', ''bowler'', ''runs_off_bat'', ''wicket_type'']"

definition sample_ledger :: ledger where
  "sample_ledger = \<lparr>columns = ledger_columns, rows =
     [\<lparr>striker = ''V Kohli'', bowler = ''JJ Bumrah'', ball = 0.1, runs_off_bat = 1, wicket_type = None\<rparr>,
      \<lparr>striker = ''V Kohli'', bowler = ''JJ Bumrah'', ball = 0.2, runs_off_bat = 4, wicket_type = None\<rparr>,
      \<lparr>striker = ''RG Sharma'', bowler = ''JJ Bumrah'', ball = 0.3, runs_off_bat = 2, wicket_type = None\<rparr>,
      \<lparr>striker = ''V Kohli'', bowler = ''JJ Bumrah'', ball = 6.4, runs_off_bat = 0, wicket_type = None\<rparr>,
      \<lparr>striker = ''V Kohli'', bowler = ''R Ashwin'', ball = 7.1, runs_off_bat = 3, wicket_type = None\<rparr>,
      \<lparr>striker = ''V Kohli'', bowler = ''JJ Bumrah'', ball = 15.2, runs_off_bat = 6, wicket_type = None\<rparr>,
      \<lparr>striker = ''V Kohli'', bowler = ''JJ Bumrah'', ball = 19.6, runs_off_bat = 0,
        wicket_type = Some ''bowled''\<rparr>]\<rparr>"

definition large_ledger :: ledger where
  "large_ledger = \<lparr>columns = ledger_columns, rows =
     [\<lparr>striker = ''V Kohli'', bowler = ''JJ Bumrah'', ball = 0.1, runs_off_bat = 2 ^ 62,
        wicket_type = None\<rparr>,
      \<lparr>striker = ''V Kohli'', bowler = ''JJ Bumrah'', ball = 0.2, runs_off_bat = 2 ^ 62,
        wicket_type = None\<rparr>]\<rparr>"

section \<open>Properties\<close>

subsection \<open>Pitch physics and scorer\<close>

lemma alerts_distinct: "distinct [CHOKE_ALERT, SPIN_TRAP, ACCELERATOR]"
  by (simp add: CHOKE_ALERT_def SPIN_TRAP_def ACCELERATOR_def)

lemma Chepauk_entry:
  "VENUES_DATABASE ''Chepauk, Chennai'' =
     Some \<lparr>soil = ''Black'', clay = 0.70, altitude = 5, avg_temp = 33, drainage = ''Medium''\<rparr>"
  by (simp add: VENUES_DATABASE_def)

lemma Lords_entry:
  "VENUES_DATABASE ''Lord's, London'' =
     Some \<lparr>soil = ''Loam'', clay = 0.30, altitude = 35, avg_temp = 22, drainage = ''Low''\<rparr>"
  by (simp add: VENUES_DATABASE_def)

lemma scorer_state_after_rules:
  "accel_rule a (spin_rule s ph (choke_rule p ph (sc, al))) =
     (sc - (if p < 45 \<and> dew ph > 0.7 then 25 else 0)
         - (if spin ph > 0.7 \<and> s < 50 then 20 else 0)
         + (if a > 80 then 15 else 0),
      al @ (if p < 45 \<and> dew ph > 0.7 then [CHOKE_ALERT] else [])
         @ (if spin ph > 0.7 \<and> s < 50 then [SPIN_TRAP] else [])
         @ (if a > 80 then [ACCELERATOR] else []))"
  by (simp add: accel_rule_def spin_rule_def choke_rule_def)

text \<open>
  Claim C1. For every role, every three player ratings and every physics record, the
  scorer returns the clamp to \<open>[0, 100]\<close> of 80, minus 25 when
  \<open>pressure < 45\<close> and \<open>dew > 0.7\<close>, minus 20 when \<open>spin > 0.7\<close> and \<open>spin_skill < 50\<close>,
  plus 15 when \<open>accel_rating > 80\<close>, together with the alerts of the rules that fired, in
  the order choke, spin trap, accelerator. Each of the three steps adjusts the score and
  appends its alert exactly when its test holds, and leaves both alone otherwise. With
  pressure resistance 30 and dew factor 0.85 the choke rule takes the initial state
  \<open>(80, [])\<close> to the score 55 with the choke alert.
\<close>

theorem player_dna_eval_rules:
  "player_dna_eval role pressure spin_skill accel_rating ph =
     (max 0 (min 100
        (80 - (if pressure < 45 \<and> dew ph > 0.7 then 25 else 0)
            - (if spin ph > 0.7 \<and> spin_skill < 50 then 20 else 0)
            + (if accel_rating > 80 then 15 else 0))),
      (if pressure < 45 \<and> dew ph > 0.7 then [CHOKE_ALERT] else [])
        @ (if spin ph > 0.7 \<and> spin_skill < 50 then [SPIN_TRAP] else [])
        @ (if accel_rating > 80 then [ACCELERATOR] else []))
   \<and> choke_rule pressure ph (score, alerts) =
       (if pressure < 45 \<and> dew ph > 0.7 then (score - 25, alerts @ [CHOKE_ALERT])
        else (score, alerts))
   \<and> spin_rule spin_skill ph (score, alerts) =
       (if spin ph > 0.7 \<and> spin_skill < 50 then (score - 20, alerts @ [SPIN_TRAP])
        else (score, alerts))
   \<and> accel_rule accel_rating (score, alerts) =
       (if accel_rating > 80 then (score + 15, alerts @ [ACCELERATOR]) else (score, alerts))
   \<and> choke_rule 30 (ph\<lparr>dew := 0.85\<rparr>) (80, []) = (55, [CHOKE_ALERT])"
proof -
  have "player_dna_eval role pressure spin_skill accel_rating ph =
     (max 0 (min 100
        (80 - (if pressure < 45 \<and> dew ph > 0.7 then 25 else 0)
            - (if spin ph > 0.7 \<and> spin_skill < 50 then 20 else 0)
            + (if accel_rating > 80 then 15 else 0))),
      (if pressure < 45 \<and> dew ph > 0.7 then [CHOKE_ALERT] else [])
        @ (if spin ph > 0.7 \<and> spin_skill < 50 then [SPIN_TRAP] else [])
        @ (if accel_rating > 80 then [ACCELERATOR] else []))"
    unfolding player_dna_eval_def scorer_state_after_rules by simp
  moreover have "choke_rule 30 (ph\<lparr>dew := 0.85\<rparr>) (80, []) = (55, [CHOKE_ALERT])"
    by (simp add: choke_rule_def)
  ultimately show ?thesis
    by (simp add: choke_rule_def spin_rule_def accel_rule_def)
qed

theorem player_dna_eval_rules_witness:
  "player_dna_eval ''Anchor'' 30 40 90 \<lparr>swing = 0.1475, spin = 0.8, dew = 0.85\<rparr> =
     (50, [CHOKE_ALERT, SPIN_TRAP, ACCELERATOR])
   \<and> player_dna_eval ''Anchor'' 80 70 60 \<lparr>swing = 0.1475, spin = 0.8, dew = 0.85\<rparr> = (80, [])"
  using player_dna_eval_rules [of "''Anchor''" 30 40 90 "\<lparr>swing = 0.1475, spin = 0.8, dew = 0.85\<rparr>"]
    player_dna_eval_rules [of "''Anchor''" 80 70 60 "\<lparr>swing = 0.1475, spin = 0.8, dew = 0.85\<rparr>"]
  by simp

text \<open>
  Claim C9. For every input the returned score lies between 0 and 100, and the returned
  alerts are a subsequence of choke, spin trap, accelerator; the three alert texts are
  pairwise different, so the order of the alerts is the order of the rules.
\<close>

theorem player_dna_eval_range_order:
  "0 \<le> fst (player_dna_eval role pressure spin_skill accel_rating ph)
   \<and> fst (player_dna_eval role pressure spin_skill accel_rating ph) \<le> 100
   \<and> subseq (snd (player_dna_eval role pressure spin_skill accel_rating ph))
        [CHOKE_ALERT, SPIN_TRAP, ACCELERATOR]
   \<and> distinct [CHOKE_ALERT, SPIN_TRAP, ACCELERATOR]"
proof -
  have "subseq (snd (player_dna_eval role pressure spin_skill accel_rating ph))
        [CHOKE_ALERT, SPIN_TRAP, ACCELERATOR]"
    unfolding player_dna_eval_def scorer_state_after_rules by simp
  moreover have "0 \<le> fst (player_dna_eval role pressure spin_skill accel_rating ph)
   \<and> fst (player_dna_eval role pressure spin_skill accel_rating ph) \<le> 100"
    unfolding player_dna_eval_def scorer_state_after_rules by simp
  ultimately show ?thesis using alerts_distinct by blast
qed

text \<open>
  Claim C10. Two calls of the scorer that differ only in the role return the same score
  and the same alerts.
\<close>

theorem player_dna_eval_role_irrelevant:
  "player_dna_eval role1 pressure spin_skill accel_rating ph =
   player_dna_eval role2 pressure spin_skill accel_rating ph"
  by (simp add: player_dna_eval_def)

text \<open>
  Claim C6. For every venue record and every temperature, the spin index is 0.8 exactly
  when the soil is Black and the temperature is above 31, and 0.4 exactly in every other
  case; on any other soil it is 0.4 whatever the temperature; it has no third value. The
  function looks the venue up by name and computes on the record it finds.
\<close>

theorem spin_index_two_values:
  "(spin (pitch_physics v temp humidity clouds hour) = 0.8
      \<longleftrightarrow> soil v = ''Black'' \<and> temp > 31)
   \<and> (spin (pitch_physics v temp humidity clouds hour) = 0.4
      \<longleftrightarrow> \<not> (soil v = ''Black'' \<and> temp > 31))
   \<and> (soil v \<noteq> ''Black'' \<longrightarrow> spin (pitch_physics v temp humidity clouds hour) = 0.4)
   \<and> (spin (pitch_physics v temp humidity clouds hour) = 0.4
      \<or> spin (pitch_physics v temp humidity clouds hour) = 0.8)
   \<and> (VENUES_DATABASE venue_name = Some v \<longrightarrow>
        calculate_pitch_physics venue_name temp humidity clouds hour =
          Inr (pitch_physics v temp humidity clouds hour))"
  by (simp add: pitch_physics_def spin_index_def calculate_pitch_physics_def)

theorem spin_index_two_values_witness:
  "VENUES_DATABASE ''Lord's, London'' =
     Some \<lparr>soil = ''Loam'', clay = 0.30, altitude = 35, avg_temp = 22, drainage = ''Low''\<rparr>
   \<and> (\<exists>ph. calculate_pitch_physics ''Lord's, London'' 40 75 20 12 = Inr ph \<and> spin ph = 0.4)"
  using spin_index_two_values [of
      "\<lparr>soil = ''Loam'', clay = 0.30, altitude = 35, avg_temp = 22, drainage = ''Low''\<rparr>"
      40 75 20 12 "''Lord's, London''"] Lords_entry
  by simp

lemma rne_nonneg: "0 \<le> x \<Longrightarrow> 0 \<le> rne x"
  by (auto simp: rne_def Let_def)

lemma rne_nonpos: "x \<le> 0 \<Longrightarrow> rne x \<le> 0"
proof -
  assume x: "x \<le> 0"
  have f: "\<lfloor>x\<rfloor> \<le> 0" using x by (simp add: floor_le_zero)
  show ?thesis
  proof (cases "\<lfloor>x\<rfloor> = 0")
    case True
    have "real_of_int \<lfloor>x\<rfloor> \<le> x" by (rule of_int_floor_le)
    with True x have "x = 0" by simp
    then show ?thesis by (simp add: rne_def)
  next
    case False
    with f have "\<lfloor>x\<rfloor> + 1 \<le> 0" by linarith
    with f show ?thesis by (auto simp: rne_def Let_def)
  qed
qed

lemma fl_nonneg: "0 \<le> x \<Longrightarrow> 0 \<le> fl x"
  by (auto simp: fl_def Let_def intro!: mult_nonneg_nonneg rne_nonneg divide_nonneg_nonneg)

lemma fl_nonpos: "x \<le> 0 \<Longrightarrow> fl x \<le> 0"
  by (auto simp: fl_def Let_def intro!: mult_nonpos_nonneg rne_nonpos divide_nonpos_nonneg)

lemma fl_0: "fl 0 = 0"
  by (simp add: fl_def)

lemma swing_prob_zero:
  assumes "0 \<le> altitude v" and "humidity = 0 \<or> clouds = 0"
  shows "swing_prob v humidity clouds = 0"
proof -
  have b: "base_swing humidity clouds = 0"
    using assms(2) by (auto simp: base_swing_def fl_0)
  have "0 \<le> altitude_penalty v"
    using assms(1) by (simp add: altitude_penalty_def fl_nonneg)
  then have "fl (base_swing humidity clouds - altitude_penalty v) \<le> 0"
    unfolding b by (simp add: fl_nonpos)
  then show ?thesis by (simp add: swing_prob_def)
qed

lemma Wankhede_entry:
  "VENUES_DATABASE ''Wankhede, Mumbai'' =
     Some \<lparr>soil = ''Red'', clay = 0.40, altitude = 10, avg_temp = 30, drainage = ''High''\<rparr>"
  by (simp add: VENUES_DATABASE_def)

lemma fl_Chepauk:
  "max 0 (fl (fl (fl (75 / 100) * fl (20 / 100)) - fl (5 / 2000))) =
     (5314247560297186 / 2 ^ 55 :: real)"
  by code_simp

lemma fl_Wankhede:
  "max 0 (fl (fl (fl (10 / 100) * fl (5 / 100)) - fl (10 / 2000))) = (1 / 2 ^ 60 :: real)"
  by code_simp

lemma fl_Lords:
  "max 0 (fl (fl (fl (80 / 100) * fl (50 / 100)) - fl (35 / 2000))) =
     (6890507429876859 / 2 ^ 54 :: real)"
  by code_simp

lemma swing_Chepauk: "altitude v = 5 \<Longrightarrow> swing_prob v 75 20 = 5314247560297186 / 2 ^ 55"
  by (simp only: swing_prob_def base_swing_def altitude_penalty_def fl_Chepauk)

lemma swing_Wankhede: "altitude v = 10 \<Longrightarrow> swing_prob v 10 5 = 1 / 2 ^ 60"
  by (simp only: swing_prob_def base_swing_def altitude_penalty_def fl_Wankhede)

lemma swing_Lords: "altitude v = 35 \<Longrightarrow> swing_prob v 80 50 = 6890507429876859 / 2 ^ 54"
  by (simp only: swing_prob_def base_swing_def altitude_penalty_def fl_Lords)

text \<open>
  Claim C7, as the code has it. For every venue record with altitude in \<open>[0, 2 ^ 1024)\<close>
  and every humidity and cloud cover in \<open>[0, 100]\<close>, the swing probability is
  \<open>max 0 (fl (fl (fl (humidity / 100) * fl (clouds / 100)) - fl (altitude / 2000)))\<close>:
  the formula of the claim with each operation rounded to binary64. With a non-negative
  altitude it is 0 when the humidity or the cloud cover is 0. At Chepauk (Black soil,
  altitude 5) with temperature 33, humidity 75 and cloud cover 20 the spin index is 0.8
  and the swing probability is \<open>5314247560297186 / 2 ^ 55\<close>, printed
  \<^verbatim>\<open>0.14750000000000002\<close>: above 0.1475 by less than \<open>1 / 2 ^ 55\<close>.
\<close>

theorem swing_probability_formula:
  "(0 \<le> altitude v \<and> altitude v < 2 ^ 1024 \<and> 0 \<le> humidity \<and> humidity \<le> 100
      \<and> 0 \<le> clouds \<and> clouds \<le> 100 \<longrightarrow>
        swing (pitch_physics v temp humidity clouds hour) =
          max 0 (fl (fl (fl (humidity / 100) * fl (clouds / 100)) - fl (altitude v / 2000))))
   \<and> (0 \<le> altitude v \<and> (humidity = 0 \<or> clouds = 0) \<longrightarrow>
        swing (pitch_physics v temp humidity clouds hour) = 0)
   \<and> (VENUES_DATABASE venue_name = Some v \<longrightarrow>
        calculate_pitch_physics venue_name temp humidity clouds hour =
          Inr (pitch_physics v temp humidity clouds hour))
   \<and> VENUES_DATABASE ''Chepauk, Chennai'' =
        Some \<lparr>soil = ''Black'', clay = 0.70, altitude = 5, avg_temp = 33, drainage = ''Medium''\<rparr>
   \<and> (\<exists>ph. calculate_pitch_physics ''Chepauk, Chennai'' 33 75 20 hour = Inr ph
          \<and> swing ph = 5314247560297186 / 2 ^ 55 \<and> spin ph = 0.8
          \<and> 0.1475 < swing ph \<and> swing ph - 0.1475 < 1 / 2 ^ 55)"
proof -
  have "swing (pitch_physics v temp humidity clouds hour) =
          max 0 (fl (fl (fl (humidity / 100) * fl (clouds / 100)) - fl (altitude v / 2000)))"
    by (simp add: pitch_physics_def swing_prob_def base_swing_def altitude_penalty_def)
  moreover have "0 \<le> altitude v \<and> (humidity = 0 \<or> clouds = 0) \<longrightarrow>
        swing (pitch_physics v temp humidity clouds hour) = 0"
    using swing_prob_zero [of v humidity clouds] by (simp add: pitch_physics_def)
  moreover have "VENUES_DATABASE venue_name = Some v \<longrightarrow>
        calculate_pitch_physics venue_name temp humidity clouds hour =
          Inr (pitch_physics v temp humidity clouds hour)"
    by (simp add: calculate_pitch_physics_def)
  moreover have "\<exists>ph. calculate_pitch_physics ''Chepauk, Chennai'' 33 75 20 hour = Inr ph
          \<and> swing ph = 5314247560297186 / 2 ^ 55 \<and> spin ph = 0.8
          \<and> 0.1475 < swing ph \<and> swing ph - 0.1475 < 1 / 2 ^ 55"
    by (simp add: calculate_pitch_physics_def Chepauk_entry pitch_physics_def swing_Chepauk
        spin_index_def)
  ultimately show ?thesis using Chepauk_entry by blast
qed

theorem swing_probability_formula_witness:
  "(0::real) \<le> altitude \<lparr>soil = ''Loam'', clay = 0.30, altitude = 35, avg_temp = 22, drainage = ''Low''\<rparr>
   \<and> swing (pitch_physics
        \<lparr>soil = ''Loam'', clay = 0.30, altitude = 35, avg_temp = 22, drainage = ''Low''\<rparr>
        22 0 60 12) = 0
   \<and> (\<exists>ph. calculate_pitch_physics ''Lord's, London'' 22 80 50 12 = Inr ph
        \<and> swing ph = 6890507429876859 / 2 ^ 54)"
  using swing_probability_formula [of
      "\<lparr>soil = ''Loam'', clay = 0.30, altitude = 35, avg_temp = 22, drainage = ''Low''\<rparr>"
      0 60 22 12 "''Lord's, London''"]
    swing_probability_formula [of
      "\<lparr>soil = ''Loam'', clay = 0.30, altitude = 35, avg_temp = 22, drainage = ''Low''\<rparr>"
      80 50 22 12 "''Lord's, London''"] Lords_entry swing_Lords
  by (simp add: pitch_physics_def)

text \<open>
  Claim C7 as first stated, in exact arithmetic, fails on the rounded operations. At
  Chepauk with humidity 75 and cloud cover 20 the swing probability is not 0.1475. At
  Wankhede (altitude 10) with humidity 10 and cloud cover 5 the exact formula gives 0,
  and the function returns \<open>1 / 2 ^ 60\<close>.
\<close>

theorem swing_probability_counterexample:
  "(\<exists>ph. calculate_pitch_physics ''Chepauk, Chennai'' 33 75 20 12 = Inr ph
        \<and> swing ph \<noteq> 0.1475)
   \<and> (\<exists>ph. calculate_pitch_physics ''Wankhede, Mumbai'' 30 10 5 12 = Inr ph
        \<and> swing ph = 1 / 2 ^ 60
        \<and> swing ph \<noteq> max 0 ((10 / 100) * (5 / 100) - 10 / 2000))"
  by (simp add: calculate_pitch_physics_def Chepauk_entry Wankhede_entry pitch_physics_def
      swing_Chepauk swing_Wankhede)

text \<open>
  Claim C8. For every hour and every humidity, the dew factor is 0.85 exactly when the
  hour is at least 18 or at most 4 and the humidity is above 70, and 0.1 exactly
  otherwise; it has no third value.
\<close>

theorem dew_factor_two_values:
  "(dew (pitch_physics v temp humidity clouds hour) = 0.85
      \<longleftrightarrow> (hour \<ge> 18 \<or> hour \<le> 4) \<and> humidity > 70)
   \<and> (dew (pitch_physics v temp humidity clouds hour) = 0.1
      \<longleftrightarrow> \<not> ((hour \<ge> 18 \<or> hour \<le> 4) \<and> humidity > 70))
   \<and> (dew (pitch_physics v temp humidity clouds hour) = 0.1
      \<or> dew (pitch_physics v temp humidity clouds hour) = 0.85)
   \<and> (VENUES_DATABASE venue_name = Some v \<longrightarrow>
        calculate_pitch_physics venue_name temp humidity clouds hour =
          Inr (pitch_physics v temp humidity clouds hour))"
  by (simp add: pitch_physics_def dew_factor_def is_night_def calculate_pitch_physics_def)

theorem dew_factor_two_values_witness:
  "(\<exists>ph. calculate_pitch_physics ''Chepauk, Chennai'' 33 80 20 21 = Inr ph \<and> dew ph = 0.85)
   \<and> (\<exists>ph. calculate_pitch_physics ''Chepauk, Chennai'' 33 80 20 12 = Inr ph \<and> dew ph = 0.1)"
  using dew_factor_two_values [of
      "\<lparr>soil = ''Black'', clay = 0.70, altitude = 5, avg_temp = 33, drainage = ''Medium''\<rparr>"
      33 80 20 21 "''Chepauk, Chennai''"]
    dew_factor_two_values [of
      "\<lparr>soil = ''Black'', clay = 0.70, altitude = 5, avg_temp = 33, drainage = ''Medium''\<rparr>"
      33 80 20 12 "''Chepauk, Chennai''"] Chepauk_entry
  by simp

subsection \<open>Head to head\<close>

lemma sint_sum_list:
  fixes ws :: "64 word list"
  assumes "\<forall>w\<in>set ws. 0 \<le> sint w" and "sum_list (map sint ws) < 2 ^ 63"
  shows "sint (sum_list ws) = sum_list (map sint ws)"
  using assms
proof (induction ws)
  case Nil
  show ?case by simp
next
  case (Cons w ws)
  have nn: "0 \<le> sum_list (map sint ws)"
    using Cons.prems(1) by (intro sum_list_nonneg) auto
  have w: "0 \<le> sint w" using Cons.prems(1) by simp
  have lt: "sint w + sum_list (map sint ws) < 2 ^ 63" using Cons.prems(2) by simp
  have ih: "sint (sum_list ws) = sum_list (map sint ws)"
    using Cons.IH Cons.prems(1) lt w by simp
  have "sint (w + sum_list ws) = signed_take_bit 63 (sint w + sint (sum_list ws))"
    by (simp add: sint_word_ariths)
  also have "\<dots> = sint w + sum_list (map sint ws)"
    unfolding ih using w nn lt by (intro signed_take_bit_int_eq_self) auto
  finally show ?case by simp
qed

lemma rne_ge_floor: "\<lfloor>y\<rfloor> \<le> rne y"
  by (simp add: rne_def Let_def)

lemma bitlen_lower: "0 < n \<Longrightarrow> 2 powi (bitlen n - 1) \<le> real_of_int n"
proof -
  assume n: "0 < n"
  have b: "0 < bitlen n"
    using n bitlen_nonneg [of n] bitlen_eq_zero_iff [of n] by linarith
  have "2 ^ nat (bitlen n - 1) \<le> n" using bitlen_bounds [OF n] by simp
  then have "real_of_int (2 ^ nat (bitlen n - 1)) \<le> real_of_int n" by linarith
  then show ?thesis using b by (simp add: power_int_def)
qed

lemma fl_pos: assumes "1 \<le> x" shows "0 < fl x"
proof -
  have fx: "0 < \<lfloor>x\<rfloor>" using assms by simp
  have "bitlen \<lfloor>x\<rfloor> \<noteq> 0" using assms by (simp add: bitlen_eq_zero_iff not_less)
  then have e0: "0 \<le> expo x"
    using bitlen_nonneg [of "\<lfloor>x\<rfloor>"] by (simp add: expo_def assms)
  have lo: "2 powi (expo x) \<le> x"
  proof -
    have "2 powi (expo x) \<le> real_of_int \<lfloor>x\<rfloor>"
      using bitlen_lower [OF fx] by (simp add: expo_def assms)
    also have "\<dots> \<le> x" by (rule of_int_floor_le)
    finally show ?thesis .
  qed
  define e where "e = max (expo \<bar>x\<bar> - 52) (- 1074)"
  have ax: "\<bar>x\<bar> = x" using assms by simp
  have e: "e = expo x - 52" using e0 by (simp add: e_def ax)
  have p: "(0::real) < 2 powi e" by simp
  have "x / 2 powi e = x * 2 powi (52 - expo x)"
    by (simp add: e power_int_diff field_simps)
  moreover have "x * 2 powi (52 - expo x) \<ge> 2 powi (expo x) * 2 powi (52 - expo x)"
    using lo by (intro mult_right_mono) auto
  moreover have "2 powi (expo x) * 2 powi (52 - expo x) = (2 powi 52 :: real)"
    by (simp add: power_int_add [symmetric])
  ultimately have big: "1 \<le> x / 2 powi e" by (simp add: power_int_def)
  then have "1 \<le> \<lfloor>x / 2 powi e\<rfloor>" by simp
  then have "0 < rne (x / 2 powi e)" using rne_ge_floor [of "x / 2 powi e"] by linarith
  then have "0 < real_of_int (rne (x / 2 powi e)) * 2 powi e" using p by simp
  moreover have "x \<noteq> 0" using assms by simp
  ultimately show ?thesis by (simp add: fl_def e_def Let_def)
qed

lemma fl_length_nonzero: "xs \<noteq> [] \<Longrightarrow> fl (real (length xs)) \<noteq> 0"
proof -
  assume "xs \<noteq> []"
  then have "1 \<le> real (length xs)" by (cases xs) auto
  from fl_pos [OF this] show ?thesis by simp
qed

lemma analyze_matchup_found:
  assumes "''striker'' \<in> set (columns df)" "''bowler'' \<in> set (columns df)"
    "''runs_off_bat'' \<in> set (columns df)" "''wicket_type'' \<in> set (columns df)"
    and "h2h_rows (rows df) batsman bowler_name \<noteq> []"
  shows "analyze_matchup df batsman bowler_name =
     Inr (Some \<lparr>balls_faced = length (h2h_rows (rows df) batsman bowler_name),
                runs_scored = sum_list (map runs_off_bat (h2h_rows (rows df) batsman bowler_name)),
                dismissals = length (filter (\<lambda>r. wicket_type r \<noteq> None)
                                (h2h_rows (rows df) batsman bowler_name)),
                dots = length (filter (\<lambda>r. runs_off_bat r = 0)
                          (h2h_rows (rows df) batsman bowler_name)),
                boundaries = length (filter (\<lambda>r. runs_off_bat r \<in> {4, 6})
                                (h2h_rows (rows df) batsman bowler_name)),
                strike_rate =
                  fl (fl (fl (real_of_int (sint (sum_list (map runs_off_bat
                                (h2h_rows (rows df) batsman bowler_name)))))
                          / fl (real (length (h2h_rows (rows df) batsman bowler_name))))
                      * 100)\<rparr>,
          ''H2H Data Found'')"
  using assms fl_length_nonzero [OF assms(5)]
  by (simp add: analyze_matchup_def Let_def truediv_def)

lemma analyze_matchup_none:
  assumes "''striker'' \<in> set (columns df)" "''bowler'' \<in> set (columns df)"
    and "h2h_rows (rows df) batsman bowler_name = []"
  shows "analyze_matchup df batsman bowler_name =
     Inr (None, ''No historical H2H data found. Switching to Skill-Type analysis...'')"
  using assms by (simp add: analyze_matchup_def)

lemma count_by_runs:
  "length (filter (\<lambda>r. P (runs_off_bat r)) rs) = length (filter P (map runs_off_bat rs))"
  by (induction rs) auto

lemma strike_rate_11_5: "fl (fl (fl 11 / fl 5) * 100) = 220 + 1 / 2 ^ 45"
  by code_simp

text \<open>
  Claim C2, as the code has it. On a ledger that has the four columns \<^verbatim>\<open>striker\<close>,
  \<^verbatim>\<open>bowler\<close>, \<^verbatim>\<open>runs_off_bat\<close> and \<^verbatim>\<open>wicket_type\<close>, whenever some row has the given
  striker and the given bowler (both compared as whole strings), the function returns a
  stats record with the message \<^verbatim>\<open>H2H Data Found\<close>: balls faced is the number of such
  rows, runs scored the sum of their runs off the bat in 64-bit arithmetic (the exact
  sum when no cell of the column is negative and the exact sum is below \<open>2 ^ 63\<close>),
  dismissals the number of them with a wicket type, dots the number of them with no
  run, boundaries the number of them with 4 or 6 runs, and the strike rate is runs
  scored divided by balls faced, times 100, each operation rounded to binary64. When
  the runs of these rows are 1, 4, 0, 6, 0 the record has 5 balls, 11 runs, 2 dots,
  2 boundaries and the strike rate \<open>220 + 1 / 2 ^ 45\<close>, printed \<^verbatim>\<open>220.00000000000003\<close>.
\<close>

theorem analyze_matchup_stats:
  assumes "''striker'' \<in> set (columns df)" and "''bowler'' \<in> set (columns df)"
    and "''runs_off_bat'' \<in> set (columns df)" and "''wicket_type'' \<in> set (columns df)"
    and "filter (\<lambda>r. striker r = batsman \<and> bowler r = bowler_name) (rows df) \<noteq> []"
  shows "\<exists>stats.
     analyze_matchup df batsman bowler_name = Inr (Some stats, ''H2H Data Found'')
     \<and> balls_faced stats =
         length (filter (\<lambda>r. striker r = batsman \<and> bowler r = bowler_name) (rows df))
     \<and> runs_scored stats =
         sum_list (map runs_off_bat
           (filter (\<lambda>r. striker r = batsman \<and> bowler r = bowler_name) (rows df)))
     \<and> ((\<forall>r \<in> set (rows df). 0 \<le> sint (runs_off_bat r))
          \<and> sum_list (map (\<lambda>r. sint (runs_off_bat r))
                (filter (\<lambda>r. striker r = batsman \<and> bowler r = bowler_name) (rows df))) < 2 ^ 63
          \<longrightarrow> sint (runs_scored stats) =
                sum_list (map (\<lambda>r. sint (runs_off_bat r))
                  (filter (\<lambda>r. striker r = batsman \<and> bowler r = bowler_name) (rows df))))
     \<and> dismissals stats =
         length (filter (\<lambda>r. striker r = batsman \<and> bowler r = bowler_name
                              \<and> wicket_type r \<noteq> None) (rows df))
     \<and> dots stats =
         length (filter (\<lambda>r. striker r = batsman \<and> bowler r = bowler_name
                              \<and> runs_off_bat r = 0) (rows df))
     \<and> boundaries stats =
         length (filter (\<lambda>r. striker r = batsman \<and> bowler r = bowler_name
                              \<and> (runs_off_bat r = 4 \<or> runs_off_bat r = 6)) (rows df))
     \<and> strike_rate stats =
         fl (fl (fl (real_of_int (sint (runs_scored stats))) / fl (real (balls_faced stats)))
             * 100)
     \<and> (map runs_off_bat
          (filter (\<lambda>r. striker r = batsman \<and> bowler r = bowler_name) (rows df))
          = [1, 4, 0, 6, 0] \<longrightarrow>
        balls_faced stats = 5 \<and> runs_scored stats = 11 \<and> dots stats = 2
        \<and> boundaries stats = 2 \<and> strike_rate stats = 220 + 1 / 2 ^ 45)"
proof -
  let ?h = "h2h_rows (rows df) batsman bowler_name"
  have h: "?h = filter (\<lambda>r. striker r = batsman \<and> bowler r = bowler_name) (rows df)"
    by (simp add: h2h_rows_def)
  have ne: "?h \<noteq> []" using assms(5) h by simp
  have sm: "(\<forall>r \<in> set (rows df). 0 \<le> sint (runs_off_bat r))
          \<and> sum_list (map (\<lambda>r. sint (runs_off_bat r)) ?h) < 2 ^ 63
          \<longrightarrow> sint (sum_list (map runs_off_bat ?h)) =
                sum_list (map (\<lambda>r. sint (runs_off_bat r)) ?h)"
  proof
    assume a: "(\<forall>r \<in> set (rows df). 0 \<le> sint (runs_off_bat r))
          \<and> sum_list (map (\<lambda>r. sint (runs_off_bat r)) ?h) < 2 ^ 63"
    have "\<forall>w \<in> set (map runs_off_bat ?h). 0 \<le> sint w"
      using a by (auto simp: h2h_rows_def)
    moreover have "sum_list (map sint (map runs_off_bat ?h)) < 2 ^ 63"
      using a by (simp add: comp_def)
    ultimately show "sint (sum_list (map runs_off_bat ?h)) =
                sum_list (map (\<lambda>r. sint (runs_off_bat r)) ?h)"
      using sint_sum_list [of "map runs_off_bat ?h"] by (simp add: comp_def)
  qed
  have fs: "filter P ?h =
      filter (\<lambda>r. striker r = batsman \<and> bowler r = bowler_name \<and> P r) (rows df)" for P
    by (simp add: h2h_rows_def conj_commute conj_left_commute)
  have bd: "filter (\<lambda>r. runs_off_bat r \<in> {4, 6}) ?h =
      filter (\<lambda>r. striker r = batsman \<and> bowler r = bowler_name
                   \<and> (runs_off_bat r = 4 \<or> runs_off_bat r = 6)) (rows df)"
    unfolding fs by simp
  define st where "st =
     \<lparr>balls_faced = length ?h, runs_scored = sum_list (map runs_off_bat ?h),
      dismissals = length (filter (\<lambda>r. wicket_type r \<noteq> None) ?h),
      dots = length (filter (\<lambda>r. runs_off_bat r = 0) ?h),
      boundaries = length (filter (\<lambda>r. runs_off_bat r \<in> {4, 6}) ?h),
      strike_rate = fl (fl (fl (real_of_int (sint (sum_list (map runs_off_bat ?h))))
                            / fl (real (length ?h))) * 100)\<rparr>"
  have eq: "analyze_matchup df batsman bowler_name = Inr (Some st, ''H2H Data Found'')"
    unfolding st_def by (rule analyze_matchup_found [OF assms(1-4) ne])
  have f1: "balls_faced st = length ?h" "runs_scored st = sum_list (map runs_off_bat ?h)"
    "dismissals st = length (filter (\<lambda>r. wicket_type r \<noteq> None) ?h)"
    "dots st = length (filter (\<lambda>r. runs_off_bat r = 0) ?h)"
    "boundaries st = length (filter (\<lambda>r. runs_off_bat r \<in> {4, 6}) ?h)"
    "strike_rate st = fl (fl (fl (real_of_int (sint (runs_scored st)))
                            / fl (real (balls_faced st))) * 100)"
    by (simp_all add: st_def)
  have c1: "balls_faced st =
         length (filter (\<lambda>r. striker r = batsman \<and> bowler r = bowler_name) (rows df))"
    by (simp add: f1 h)
  have c2: "runs_scored st =
         sum_list (map runs_off_bat
           (filter (\<lambda>r. striker r = batsman \<and> bowler r = bowler_name) (rows df)))"
    by (simp add: f1 h)
  have c3: "(\<forall>r \<in> set (rows df). 0 \<le> sint (runs_off_bat r))
          \<and> sum_list (map (\<lambda>r. sint (runs_off_bat r))
                (filter (\<lambda>r. striker r = batsman \<and> bowler r = bowler_name) (rows df))) < 2 ^ 63
          \<longrightarrow> sint (runs_scored st) =
                sum_list (map (\<lambda>r. sint (runs_off_bat r))
                  (filter (\<lambda>r. striker r = batsman \<and> bowler r = bowler_name) (rows df)))"
    using sm unfolding f1(2) h .
  have c4: "dismissals st =
         length (filter (\<lambda>r. striker r = batsman \<and> bowler r = bowler_name
                              \<and> wicket_type r \<noteq> None) (rows df))"
    unfolding f1(3) fs ..
  have c5: "dots st =
         length (filter (\<lambda>r. striker r = batsman \<and> bowler r = bowler_name
                              \<and> runs_off_bat r = 0) (rows df))"
    unfolding f1(4) fs ..
  have c6: "boundaries st =
         length (filter (\<lambda>r. striker r = batsman \<and> bowler r = bowler_name
                              \<and> (runs_off_bat r = 4 \<or> runs_off_bat r = 6)) (rows df))"
    unfolding f1(5) bd ..
  have c8: "map runs_off_bat
          (filter (\<lambda>r. striker r = batsman \<and> bowler r = bowler_name) (rows df))
          = [1, 4, 0, 6, 0] \<longrightarrow>
        balls_faced st = 5 \<and> runs_scored st = 11 \<and> dots st = 2
        \<and> boundaries st = 2 \<and> strike_rate st = 220 + 1 / 2 ^ 45"
  proof (intro impI)
    assume "map runs_off_bat
          (filter (\<lambda>r. striker r = batsman \<and> bowler r = bowler_name) (rows df))
          = [1, 4, 0, 6, 0]"
    then have m: "map runs_off_bat ?h = [1, 4, 0, 6, 0]" by (simp add: h)
    have "length (map runs_off_bat ?h) = 5" unfolding m by simp
    then have l: "balls_faced st = 5" by (simp add: f1)
    have s: "runs_scored st = 11" unfolding f1 m by simp
    have d: "dots st = 2"
      unfolding f1 count_by_runs [of "\<lambda>x. x = 0"] m by simp
    have b: "boundaries st = 2"
      unfolding f1 count_by_runs [of "\<lambda>x. x \<in> {4, 6}"] m by simp
    have "strike_rate st = fl (fl (fl 11 / fl 5) * 100)"
      unfolding f1(6) l s by simp
    then have r: "strike_rate st = 220 + 1 / 2 ^ 45"
      unfolding strike_rate_11_5 .
    from l s d b r show "balls_faced st = 5 \<and> runs_scored st = 11 \<and> dots st = 2
        \<and> boundaries st = 2 \<and> strike_rate st = 220 + 1 / 2 ^ 45"
      by blast
  qed
  from eq c1 c2 c3 c4 c5 c6 f1(6) c8 show ?thesis by blast
qed

theorem analyze_matchup_stats_witness:
  "filter (\<lambda>r. striker r = ''V Kohli'' \<and> bowler r = ''JJ Bumrah'') (rows sample_ledger) \<noteq> []
   \<and> analyze_matchup sample_ledger ''V Kohli'' ''JJ Bumrah'' =
       Inr (Some \<lparr>balls_faced = 5, runs_scored = 11, dismissals = 1, dots = 2,
                  boundaries = 2, strike_rate = 220 + 1 / 2 ^ 45\<rparr>, ''H2H Data Found'')"
proof -
  have ne: "filter (\<lambda>r. striker r = ''V Kohli'' \<and> bowler r = ''JJ Bumrah'') (rows sample_ledger) \<noteq> []"
    by (simp add: sample_ledger_def)
  have c: "''striker'' \<in> set (columns sample_ledger)" "''bowler'' \<in> set (columns sample_ledger)"
    "''runs_off_bat'' \<in> set (columns sample_ledger)"
    "''wicket_type'' \<in> set (columns sample_ledger)"
    by (simp_all add: sample_ledger_def ledger_columns_def)
  show ?thesis
    using ne analyze_matchup_stats [OF c ne]
    by (auto simp add: sample_ledger_def)
qed

text \<open>
  Claim C2 as first stated, with an exact sum and an exact quotient, fails twice. On the
  sample ledger the runs of the selected rows are 1, 4, 0, 6, 0 and the strike rate is
  not 220. On the ledger of two cells of \<open>2 ^ 62\<close> runs the exact sum is \<open>2 ^ 63\<close>, and
  the runs scored are \<open>- (2 ^ 63)\<close>.
\<close>

theorem analyze_matchup_stats_counterexample:
  "(\<exists>stats. analyze_matchup sample_ledger ''V Kohli'' ''JJ Bumrah'' =
        Inr (Some stats, ''H2H Data Found'')
      \<and> map runs_off_bat (filter (\<lambda>r. striker r = ''V Kohli'' \<and> bowler r = ''JJ Bumrah'')
            (rows sample_ledger)) = [1, 4, 0, 6, 0]
      \<and> strike_rate stats \<noteq> 220)
   \<and> (\<exists>stats. analyze_matchup large_ledger ''V Kohli'' ''JJ Bumrah'' =
        Inr (Some stats, ''H2H Data Found'')
      \<and> sint (runs_scored stats) = - (2 ^ 63)
      \<and> sum_list (map (\<lambda>r. sint (runs_off_bat r))
            (filter (\<lambda>r. striker r = ''V Kohli'' \<and> bowler r = ''JJ Bumrah'')
               (rows large_ledger))) = 2 ^ 63)"
proof -
  have c: "''striker'' \<in> set (columns sample_ledger)" "''bowler'' \<in> set (columns sample_ledger)"
    "''runs_off_bat'' \<in> set (columns sample_ledger)"
    "''wicket_type'' \<in> set (columns sample_ledger)"
    by (simp_all add: sample_ledger_def ledger_columns_def)
  have ne: "h2h_rows (rows sample_ledger) ''V Kohli'' ''JJ Bumrah'' \<noteq> []"
    by (simp add: sample_ledger_def h2h_rows_def)
  have a: "\<exists>stats. analyze_matchup sample_ledger ''V Kohli'' ''JJ Bumrah'' =
        Inr (Some stats, ''H2H Data Found'')
      \<and> map runs_off_bat (filter (\<lambda>r. striker r = ''V Kohli'' \<and> bowler r = ''JJ Bumrah'')
            (rows sample_ledger)) = [1, 4, 0, 6, 0]
      \<and> strike_rate stats \<noteq> 220"
    unfolding analyze_matchup_found [OF c ne]
    using strike_rate_11_5 by (simp add: sample_ledger_def h2h_rows_def)
  have c': "''striker'' \<in> set (columns large_ledger)" "''bowler'' \<in> set (columns large_ledger)"
    "''runs_off_bat'' \<in> set (columns large_ledger)"
    "''wicket_type'' \<in> set (columns large_ledger)"
    by (simp_all add: large_ledger_def ledger_columns_def)
  have ne': "h2h_rows (rows large_ledger) ''V Kohli'' ''JJ Bumrah'' \<noteq> []"
    by (simp add: large_ledger_def h2h_rows_def)
  have b: "\<exists>stats. analyze_matchup large_ledger ''V Kohli'' ''JJ Bumrah'' =
        Inr (Some stats, ''H2H Data Found'')
      \<and> sint (runs_scored stats) = - (2 ^ 63)
      \<and> sum_list (map (\<lambda>r. sint (runs_off_bat r))
            (filter (\<lambda>r. striker r = ''V Kohli'' \<and> bowler r = ''JJ Bumrah'')
               (rows large_ledger))) = 2 ^ 63"
    unfolding analyze_matchup_found [OF c' ne']
    by (simp add: large_ledger_def h2h_rows_def)
  from a b show ?thesis by blast
qed

text \<open>
  Claim C3, as the code has it. The function returns no stats record, with its
  explanatory message, exactly when the ledger has the columns \<^verbatim>\<open>striker\<close> and \<^verbatim>\<open>bowler\<close>
  and no row has the given striker and bowler; so it does on every ledger with these two
  columns and no rows. It never divides by zero: the only error it ends in is the
  \<^verbatim>\<open>KeyError\<close> of a column that the ledger lacks, and a stats record that it returns
  has a positive number of balls faced, whose binary64 value is not zero.
\<close>

theorem analyze_matchup_not_found:
  "(analyze_matchup df batsman bowler_name =
      Inr (None, ''No historical H2H data found. Switching to Skill-Type analysis...'')
     \<longleftrightarrow> ''striker'' \<in> set (columns df) \<and> ''bowler'' \<in> set (columns df)
          \<and> filter (\<lambda>r. striker r = batsman \<and> bowler r = bowler_name) (rows df) = [])
   \<and> ((\<exists>msg. analyze_matchup df batsman bowler_name = Inr (None, msg))
     \<longleftrightarrow> ''striker'' \<in> set (columns df) \<and> ''bowler'' \<in> set (columns df)
          \<and> filter (\<lambda>r. striker r = batsman \<and> bowler r = bowler_name) (rows df) = [])
   \<and> analyze_matchup df batsman bowler_name \<noteq> Inl ZeroDivision
   \<and> (\<forall>e. analyze_matchup df batsman bowler_name = Inl e \<longrightarrow>
         (\<exists>c. e = KeyError c \<and> c \<notin> set (columns df)))
   \<and> (\<forall>stats msg. analyze_matchup df batsman bowler_name = Inr (Some stats, msg) \<longrightarrow>
         0 < balls_faced stats \<and> fl (real (balls_faced stats)) \<noteq> 0)
   \<and> (''striker'' \<in> set cols \<and> ''bowler'' \<in> set cols \<longrightarrow>
         analyze_matchup \<lparr>columns = cols, rows = []\<rparr> batsman bowler_name =
           Inr (None, ''No historical H2H data found. Switching to Skill-Type analysis...''))"
proof -
  let ?h = "h2h_rows (rows df) batsman bowler_name"
  have h: "?h = filter (\<lambda>r. striker r = batsman \<and> bowler r = bowler_name) (rows df)"
    by (simp add: h2h_rows_def)
  have last: "''striker'' \<in> set cols \<and> ''bowler'' \<in> set cols \<longrightarrow>
         analyze_matchup \<lparr>columns = cols, rows = []\<rparr> batsman bowler_name =
           Inr (None, ''No historical H2H data found. Switching to Skill-Type analysis...'')"
    by (simp add: analyze_matchup_def h2h_rows_def)
  consider (nocol) "''striker'' \<notin> set (columns df) \<or> ''bowler'' \<notin> set (columns df)"
    | (empty) "''striker'' \<in> set (columns df)" "''bowler'' \<in> set (columns df)" "?h = []"
    | (nostat) "''striker'' \<in> set (columns df)" "''bowler'' \<in> set (columns df)" "?h \<noteq> []"
        "''runs_off_bat'' \<notin> set (columns df) \<or> ''wicket_type'' \<notin> set (columns df)"
    | (found) "''striker'' \<in> set (columns df)" "''bowler'' \<in> set (columns df)" "?h \<noteq> []"
        "''runs_off_bat'' \<in> set (columns df)" "''wicket_type'' \<in> set (columns df)"
    by blast
  then show ?thesis
  proof cases
    case nocol
    then have "analyze_matchup df batsman bowler_name = Inl (KeyError ''striker'')
        \<and> ''striker'' \<notin> set (columns df)
      \<or> analyze_matchup df batsman bowler_name = Inl (KeyError ''bowler'')
        \<and> ''bowler'' \<notin> set (columns df)"
      by (auto simp: analyze_matchup_def)
    with nocol last show ?thesis by auto
  next
    case empty
    from analyze_matchup_none [OF empty] empty last show ?thesis
      by (simp add: h)
  next
    case nostat
    then have "analyze_matchup df batsman bowler_name = Inl (KeyError ''runs_off_bat'')
        \<and> ''runs_off_bat'' \<notin> set (columns df)
      \<or> analyze_matchup df batsman bowler_name = Inl (KeyError ''wicket_type'')
        \<and> ''wicket_type'' \<notin> set (columns df)"
      by (auto simp: analyze_matchup_def Let_def)
    with nostat last show ?thesis by (auto simp: h)
  next
    case found
    have "0 < length ?h" using found(3) by simp
    with analyze_matchup_found [OF found(1,2,4,5,3)] fl_length_nonzero [OF found(3)]
      found last show ?thesis
      by (simp add: h)
  qed
qed

theorem analyze_matchup_not_found_witness:
  "analyze_matchup sample_ledger ''RG Sharma'' ''R Ashwin'' =
      Inr (None, ''No historical H2H data found. Switching to Skill-Type analysis...'')
   \<and> filter (\<lambda>r. striker r = ''RG Sharma'' \<and> bowler r = ''R Ashwin'') (rows sample_ledger) = []
   \<and> analyze_matchup sample_ledger ''v kohli'' ''JJ Bumrah'' =
      Inr (None, ''No historical H2H data found. Switching to Skill-Type analysis...'')
   \<and> analyze_matchup \<lparr>columns = ledger_columns, rows = []\<rparr> ''V Kohli'' ''JJ Bumrah'' =
      Inr (None, ''No historical H2H data found. Switching to Skill-Type analysis...'')
   \<and> (\<exists>stats msg. analyze_matchup sample_ledger ''RG Sharma'' ''JJ Bumrah'' = Inr (Some stats, msg)
        \<and> 0 < balls_faced stats)"
proof -
  have c: "''striker'' \<in> set (columns sample_ledger)" "''bowler'' \<in> set (columns sample_ledger)"
    "''runs_off_bat'' \<in> set (columns sample_ledger)"
    "''wicket_type'' \<in> set (columns sample_ledger)"
    by (simp_all add: sample_ledger_def ledger_columns_def)
  have ne: "h2h_rows (rows sample_ledger) ''RG Sharma'' ''JJ Bumrah'' \<noteq> []"
    by (simp add: sample_ledger_def h2h_rows_def)
  have f: "\<exists>stats msg. analyze_matchup sample_ledger ''RG Sharma'' ''JJ Bumrah'' =
      Inr (Some stats, msg)"
    unfolding analyze_matchup_found [OF c ne] by simp
  have e: "filter (\<lambda>r. striker r = ''RG Sharma'' \<and> bowler r = ''R Ashwin'') (rows sample_ledger) = []"
     "filter (\<lambda>r. striker r = ''v kohli'' \<and> bowler r = ''JJ Bumrah'') (rows sample_ledger) = []"
    by (simp_all add: sample_ledger_def)
  have l: "''striker'' \<in> set ledger_columns \<and> ''bowler'' \<in> set ledger_columns"
    by (simp add: ledger_columns_def)
  show ?thesis
    using e f c l
      analyze_matchup_not_found [of sample_ledger "''RG Sharma''" "''R Ashwin''" ledger_columns]
      analyze_matchup_not_found [of sample_ledger "''RG Sharma''" "''JJ Bumrah''" ledger_columns]
      analyze_matchup_not_found [of sample_ledger "''v kohli''" "''JJ Bumrah''" ledger_columns]
      analyze_matchup_not_found [of sample_ledger "''V Kohli''" "''JJ Bumrah''" ledger_columns]
    by auto
qed

text \<open>
  Claim C3 as first stated, for every ledger, fails on a ledger without the columns. On
  \<^verbatim>\<open>pd.DataFrame()\<close>, the empty ledger that ingestion returns when it accepts nothing,
  no row is selected and the function raises \<^verbatim>\<open>KeyError\<close> instead of returning the
  not-found outcome; likewise on a ledger with no \<^verbatim>\<open>bowler\<close> column.
\<close>

theorem analyze_matchup_not_found_counterexample:
  "analyze_matchup DataFrame_empty ''V Kohli'' ''JJ Bumrah'' = Inl (KeyError ''striker'')
   \<and> filter (\<lambda>r. striker r = ''V Kohli'' \<and> bowler r = ''JJ Bumrah'')
        (rows (DataFrame_empty :: ledger)) = []
   \<and> analyze_matchup \<lparr>columns = [''striker''], rows = []\<rparr> ''V Kohli'' ''JJ Bumrah'' =
        Inl (KeyError ''bowler'')"
  by (simp add: analyze_matchup_def DataFrame_empty_def)

subsection \<open>Phase profile\<close>

lemma pd_cut_cases:
  "(pd_cut x = Some Powerplay \<longleftrightarrow> 0 < x \<and> x \<le> 6)"
  "(pd_cut x = Some Middle \<longleftrightarrow> 6 < x \<and> x \<le> 15)"
  "(pd_cut x = Some Death \<longleftrightarrow> 15 < x \<and> x \<le> 20)"
  "(pd_cut x = None \<longleftrightarrow> \<not> (0 < x \<and> x \<le> 20))"
  by (auto simp: pd_cut_def)

lemma pd_cut_whole:
  "(pd_cut (real_of_int n) = Some Powerplay \<longleftrightarrow> 1 \<le> n \<and> n \<le> 6)"
  "(pd_cut (real_of_int n) = Some Middle \<longleftrightarrow> 7 \<le> n \<and> n \<le> 15)"
  "(pd_cut (real_of_int n) = Some Death \<longleftrightarrow> 16 \<le> n \<and> n \<le> 20)"
  "(pd_cut (real_of_int n) = None \<longleftrightarrow> \<not> (1 \<le> n \<and> n \<le> 20))"
  by (auto simp: pd_cut_def)

lemma phase_runs_total:
  "phase_runs rs Powerplay + phase_runs rs Middle + phase_runs rs Death =
     sum_list (map runs_off_bat (filter (\<lambda>r. 0 < ball r \<and> ball r \<le> 20) rs))"
proof (induction rs)
  case Nil
  show ?case by (simp add: phase_runs_def)
next
  case (Cons r rs)
  have step: "phase_runs (r # rs) p =
      (if pd_cut (ball r) = Some p then runs_off_bat r else 0) + phase_runs rs p" for p
    by (simp add: phase_runs_def)
  show ?case
    using Cons.IH unfolding step by (auto simp: pd_cut_def algebra_simps)
qed

lemma sum_list_filter_le:
  fixes f :: "'a \<Rightarrow> int"
  assumes "\<forall>x \<in> set xs. 0 \<le> f x"
  shows "sum_list (map f (filter P xs)) \<le> sum_list (map f xs)"
  using assms by (induction xs) auto

text \<open>
  Claim C4, as the code has it. The bins are \<open>(0, 6]\<close> for Powerplay, \<open>(6, 15]\<close> for
  Middle and \<open>(15, 20]\<close> for Death: a ball position gets exactly the phase whose bin holds
  it, and no phase when it lies outside \<open>(0, 20]\<close>. On whole numbers these are the
  positions 1 to 6, 7 to 15 and 16 to 20. On a ledger that has the columns \<^verbatim>\<open>striker\<close>,
  \<^verbatim>\<open>ball\<close> and \<^verbatim>\<open>runs_off_bat\<close>, the profile of a batter has one line for each of the three
  phases, in this order; the line of a phase holds the 64-bit sum of the runs off the
  bat of the batter's rows in that phase, so the three lines add up, in 64-bit
  arithmetic, to the runs of the batter's rows with position in \<open>(0, 20]\<close>, and a phase
  without rows has the line 0. When no cell of the column is negative and the exact sum
  over the batter's rows is below \<open>2 ^ 63\<close>, the lines are the exact sums and add up
  exactly.
\<close>

theorem phase_performance_partition:
  "(pd_cut x = Some Powerplay \<longleftrightarrow> 0 < x \<and> x \<le> 6)
   \<and> (pd_cut x = Some Middle \<longleftrightarrow> 6 < x \<and> x \<le> 15)
   \<and> (pd_cut x = Some Death \<longleftrightarrow> 15 < x \<and> x \<le> 20)
   \<and> (pd_cut x = None \<longleftrightarrow> \<not> (0 < x \<and> x \<le> 20))
   \<and> (pd_cut (real_of_int n) = Some Powerplay \<longleftrightarrow> 1 \<le> n \<and> n \<le> 6)
   \<and> (pd_cut (real_of_int n) = Some Middle \<longleftrightarrow> 7 \<le> n \<and> n \<le> 15)
   \<and> (pd_cut (real_of_int n) = Some Death \<longleftrightarrow> 16 \<le> n \<and> n \<le> 20)
   \<and> (pd_cut (real_of_int n) = None \<longleftrightarrow> \<not> (1 \<le> n \<and> n \<le> 20))
   \<and> (''striker'' \<in> set (columns df) \<and> ''ball'' \<in> set (columns df)
        \<and> ''runs_off_bat'' \<in> set (columns df) \<longrightarrow>
       (\<exists>prof. phase_performance df batsman = Inr prof
          \<and> map fst prof = [Powerplay, Middle, Death]
          \<and> map snd prof =
              map (\<lambda>p. sum_list (map runs_off_bat
                         (filter (\<lambda>r. striker r = batsman \<and> pd_cut (ball r) = Some p) (rows df))))
                  [Powerplay, Middle, Death]
          \<and> sum_list (map snd prof) =
              sum_list (map runs_off_bat
                (filter (\<lambda>r. striker r = batsman \<and> 0 < ball r \<and> ball r \<le> 20) (rows df)))
          \<and> ((\<forall>r \<in> set (rows df). 0 \<le> sint (runs_off_bat r))
               \<and> sum_list (map (\<lambda>r. sint (runs_off_bat r))
                     (filter (\<lambda>r. striker r = batsman) (rows df))) < 2 ^ 63 \<longrightarrow>
              map (\<lambda>l. sint (snd l)) prof =
                map (\<lambda>p. sum_list (map (\<lambda>r. sint (runs_off_bat r))
                           (filter (\<lambda>r. striker r = batsman \<and> pd_cut (ball r) = Some p) (rows df))))
                    [Powerplay, Middle, Death]
              \<and> sum_list (map (\<lambda>l. sint (snd l)) prof) =
                  sum_list (map (\<lambda>r. sint (runs_off_bat r))
                    (filter (\<lambda>r. striker r = batsman \<and> 0 < ball r \<and> ball r \<le> 20) (rows df))))
          \<and> (filter (\<lambda>r. striker r = batsman \<and> pd_cut (ball r) = Some p) (rows df) = [] \<longrightarrow>
               (p, 0) \<in> set prof)))"
proof -
  let ?b = "b_stats (rows df) batsman"
  define prof where "prof = map (\<lambda>p. (p, phase_runs ?b p)) [Powerplay, Middle, Death]"
  have f: "filter P (filter (\<lambda>r. striker r = batsman) (rows df)) =
      filter (\<lambda>r. striker r = batsman \<and> P r) (rows df)" for P
    by (simp add: conj_commute)
  have runs: "phase_runs ?b q =
      sum_list (map runs_off_bat
        (filter (\<lambda>r. striker r = batsman \<and> pd_cut (ball r) = Some q) (rows df)))" for q
    by (simp add: phase_runs_def b_stats_def f)
  have p1: "map fst prof = [Powerplay, Middle, Death]" by (simp add: prof_def)
  have p2: "map snd prof =
              map (\<lambda>p. sum_list (map runs_off_bat
                         (filter (\<lambda>r. striker r = batsman \<and> pd_cut (ball r) = Some p) (rows df))))
                  [Powerplay, Middle, Death]"
    by (simp add: prof_def runs)
  have p3: "sum_list (map snd prof) =
       sum_list (map runs_off_bat
         (filter (\<lambda>r. striker r = batsman \<and> 0 < ball r \<and> ball r \<le> 20) (rows df)))"
    using phase_runs_total [of ?b] by (simp add: prof_def b_stats_def f add.assoc)
  have p5: "filter (\<lambda>r. striker r = batsman \<and> pd_cut (ball r) = Some p) (rows df) = [] \<longrightarrow>
        (p, 0) \<in> set prof"
    by (cases p) (auto simp add: prof_def runs)
  have p4: "(\<forall>r \<in> set (rows df). 0 \<le> sint (runs_off_bat r))
               \<and> sum_list (map (\<lambda>r. sint (runs_off_bat r))
                     (filter (\<lambda>r. striker r = batsman) (rows df))) < 2 ^ 63 \<longrightarrow>
              map (\<lambda>l. sint (snd l)) prof =
                map (\<lambda>p. sum_list (map (\<lambda>r. sint (runs_off_bat r))
                           (filter (\<lambda>r. striker r = batsman \<and> pd_cut (ball r) = Some p) (rows df))))
                    [Powerplay, Middle, Death]
              \<and> sum_list (map (\<lambda>l. sint (snd l)) prof) =
                  sum_list (map (\<lambda>r. sint (runs_off_bat r))
                    (filter (\<lambda>r. striker r = batsman \<and> 0 < ball r \<and> ball r \<le> 20) (rows df)))"
  proof (intro impI)
    assume a: "(\<forall>r \<in> set (rows df). 0 \<le> sint (runs_off_bat r))
               \<and> sum_list (map (\<lambda>r. sint (runs_off_bat r))
                     (filter (\<lambda>r. striker r = batsman) (rows df))) < 2 ^ 63"
    let ?g = "\<lambda>r. sint (runs_off_bat r)"
    have nn: "\<forall>r \<in> set (filter (\<lambda>r. striker r = batsman) (rows df)). 0 \<le> ?g r"
      using a by simp
    have exact: "sint (sum_list (map runs_off_bat
            (filter (\<lambda>r. striker r = batsman \<and> Q r) (rows df)))) =
          sum_list (map ?g (filter (\<lambda>r. striker r = batsman \<and> Q r) (rows df)))" for Q
    proof -
      have "sum_list (map ?g (filter Q (filter (\<lambda>r. striker r = batsman) (rows df))))
          \<le> sum_list (map ?g (filter (\<lambda>r. striker r = batsman) (rows df)))"
        by (rule sum_list_filter_le [OF nn])
      then have lt: "sum_list (map ?g (filter (\<lambda>r. striker r = batsman \<and> Q r) (rows df))) < 2 ^ 63"
        using a unfolding f by linarith
      have "\<forall>w \<in> set (map runs_off_bat (filter (\<lambda>r. striker r = batsman \<and> Q r) (rows df))).
          0 \<le> sint w"
        using a by auto
      from sint_sum_list [OF this] lt show ?thesis by (simp add: comp_def)
    qed
    have q1: "map (\<lambda>l. sint (snd l)) prof =
                map (\<lambda>p. sum_list (map ?g
                           (filter (\<lambda>r. striker r = batsman \<and> pd_cut (ball r) = Some p) (rows df))))
                    [Powerplay, Middle, Death]"
      by (simp add: prof_def runs exact)
    have split: "sum_list (map ?g (filter (\<lambda>r. striker r = batsman \<and> 0 < ball r \<and> ball r \<le> 20) rs)) =
        sum_list (map ?g (filter (\<lambda>r. striker r = batsman \<and> pd_cut (ball r) = Some Powerplay) rs))
        + sum_list (map ?g (filter (\<lambda>r. striker r = batsman \<and> pd_cut (ball r) = Some Middle) rs))
        + sum_list (map ?g (filter (\<lambda>r. striker r = batsman \<and> pd_cut (ball r) = Some Death) rs))"
      for rs
      by (induction rs) (auto simp: pd_cut_def)
    have q2: "sum_list (map (\<lambda>l. sint (snd l)) prof) =
                  sum_list (map ?g
                    (filter (\<lambda>r. striker r = batsman \<and> 0 < ball r \<and> ball r \<le> 20) (rows df)))"
      unfolding q1 split [of "rows df"] by simp
    from q1 q2 show "map (\<lambda>l. sint (snd l)) prof =
                map (\<lambda>p. sum_list (map ?g
                           (filter (\<lambda>r. striker r = batsman \<and> pd_cut (ball r) = Some p) (rows df))))
                    [Powerplay, Middle, Death]
              \<and> sum_list (map (\<lambda>l. sint (snd l)) prof) =
                  sum_list (map ?g
                    (filter (\<lambda>r. striker r = batsman \<and> 0 < ball r \<and> ball r \<le> 20) (rows df)))"
      by blast
  qed
  have main: "''striker'' \<in> set (columns df) \<and> ''ball'' \<in> set (columns df)
        \<and> ''runs_off_bat'' \<in> set (columns df) \<longrightarrow>
       phase_performance df batsman = Inr prof"
    by (simp add: phase_performance_def prof_def)
  show ?thesis
  proof (intro conjI impI pd_cut_cases pd_cut_whole)
    assume "''striker'' \<in> set (columns df) \<and> ''ball'' \<in> set (columns df)
        \<and> ''runs_off_bat'' \<in> set (columns df)"
    with main have m: "phase_performance df batsman = Inr prof" by blast
    show "\<exists>prof. phase_performance df batsman = Inr prof
          \<and> map fst prof = [Powerplay, Middle, Death]
          \<and> map snd prof =
              map (\<lambda>p. sum_list (map runs_off_bat
                         (filter (\<lambda>r. striker r = batsman \<and> pd_cut (ball r) = Some p) (rows df))))
                  [Powerplay, Middle, Death]
          \<and> sum_list (map snd prof) =
              sum_list (map runs_off_bat
                (filter (\<lambda>r. striker r = batsman \<and> 0 < ball r \<and> ball r \<le> 20) (rows df)))
          \<and> ((\<forall>r \<in> set (rows df). 0 \<le> sint (runs_off_bat r))
               \<and> sum_list (map (\<lambda>r. sint (runs_off_bat r))
                     (filter (\<lambda>r. striker r = batsman) (rows df))) < 2 ^ 63 \<longrightarrow>
              map (\<lambda>l. sint (snd l)) prof =
                map (\<lambda>p. sum_list (map (\<lambda>r. sint (runs_off_bat r))
                           (filter (\<lambda>r. striker r = batsman \<and> pd_cut (ball r) = Some p) (rows df))))
                    [Powerplay, Middle, Death]
              \<and> sum_list (map (\<lambda>l. sint (snd l)) prof) =
                  sum_list (map (\<lambda>r. sint (runs_off_bat r))
                    (filter (\<lambda>r. striker r = batsman \<and> 0 < ball r \<and> ball r \<le> 20) (rows df))))
          \<and> (filter (\<lambda>r. striker r = batsman \<and> pd_cut (ball r) = Some p) (rows df) = [] \<longrightarrow>
               (p, 0) \<in> set prof)"
      by (rule exI [of _ prof]) (intro conjI m p1 p2 p3 p4 p5)
  qed
qed

theorem phase_performance_partition_witness:
  "filter (\<lambda>r. striker r = ''RG Sharma'' \<and> pd_cut (ball r) = Some Death) (rows sample_ledger) = []
   \<and> phase_performance sample_ledger ''RG Sharma'' =
       Inr [(Powerplay, 2), (Middle, 0), (Death, 0)]
   \<and> phase_performance sample_ledger ''V Kohli'' =
       Inr [(Powerplay, 5), (Middle, 3), (Death, 6)]"
proof -
  have a: "phase_performance sample_ledger ''RG Sharma'' =
      Inr [(Powerplay, 2), (Middle, 0), (Death, 0)]"
    by (simp add: phase_performance_def phase_runs_def b_stats_def sample_ledger_def
        ledger_columns_def pd_cut_def)
  have b: "phase_performance sample_ledger ''V Kohli'' =
      Inr [(Powerplay, 5), (Middle, 3), (Death, 6)]"
    by (simp add: phase_performance_def phase_runs_def b_stats_def sample_ledger_def
        ledger_columns_def pd_cut_def)
  have c: "filter (\<lambda>r. striker r = ''RG Sharma'' \<and> pd_cut (ball r) = Some Death)
      (rows sample_ledger) = []"
    by (simp add: sample_ledger_def pd_cut_def)
  show ?thesis
    using a b c phase_performance_partition [of _ _ sample_ledger "''RG Sharma''" Death]
    by simp
qed

text \<open>
  Claim C4 as first stated, with buckets that start at 1, fails on a position between
  0 and 1. The first ball of an innings, at position 0.1, lies outside \<open>[1, 20]\<close> and is
  binned into the Powerplay all the same; for a ledger holding just that ball, hit for
  four, the Powerplay line is 4, while the rows with position in \<open>[1, 20]\<close> add up to 0.
\<close>

theorem phase_buckets_counterexample:
  "pd_cut 0.1 = Some Powerplay
   \<and> \<not> (1 \<le> (0.1 :: real) \<and> (0.1 :: real) \<le> 20)
   \<and> phase_performance
        \<lparr>columns = ledger_columns, rows =
          [\<lparr>striker = ''V Kohli'', bowler = ''JJ Bumrah'', ball = 0.1, runs_off_bat = 4,
            wicket_type = None\<rparr>]\<rparr> ''V Kohli'' =
       Inr [(Powerplay, 4), (Middle, 0), (Death, 0)]
   \<and> sum_list (map runs_off_bat (filter (\<lambda>r. striker r = ''V Kohli'' \<and> 1 \<le> ball r \<and> ball r \<le> 20)
        [\<lparr>striker = ''V Kohli'', bowler = ''JJ Bumrah'', ball = 0.1, runs_off_bat = 4,
          wicket_type = None\<rparr>])) = 0"
  by (simp add: phase_performance_def phase_runs_def b_stats_def pd_cut_def ledger_columns_def)

subsection \<open>Ingestion\<close>

lemma collect_frames_rows:
  "concat (map rows (collect_frames es acc)) =
     concat (map rows acc) @ concat (map entry_rows (filter accepted es))"
  by (induction es acc rule: collect_frames.induct)
     (auto simp: accepted_def entry_rows_def split: option.splits)

lemma get_cleaned_data_rows:
  "rows (get_cleaned_data (Some es)) =
     concat (map entry_rows (filter accepted (take 150 es)))"
proof -
  let ?l = "collect_frames (take 150 es) []"
  have "rows (get_cleaned_data (Some es)) = concat (map rows ?l)"
    by (simp add: get_cleaned_data_def Let_def DataFrame_empty_def pd_concat_def)
  then show ?thesis by (simp add: collect_frames_rows)
qed

text \<open>
  Claim C5. For every listing of the archive, the rows of the resulting frame are the
  rows of the accepted members among the first 150, in the order of the listing. A
  member is accepted only if its name neither ends in \<^verbatim>\<open>_info.csv\<close> nor contains
  \<^verbatim>\<open>README\<close>, reading it gave a frame, and that frame has the columns \<^verbatim>\<open>striker\<close> and
  \<^verbatim>\<open>bowler\<close>. Every other member is passed over and the function still returns a frame;
  when the archive cannot be had at all, the frame has no rows. Given a well-formed
  member and a member without the \<^verbatim>\<open>bowler\<close> column, in either order, the rows are those
  of the well-formed member.
\<close>

theorem get_cleaned_data_accepts:
  fixes namelist :: "'r zip_entry list" and outcome :: "'r frame option"
    and good bad :: "'r frame"
  shows
  "rows (get_cleaned_data (Some namelist)) =
     concat (map entry_rows (filter accepted (take 150 namelist)))
   \<and> rows (get_cleaned_data None :: 'r frame) = []
   \<and> (accepted (filename, outcome) \<longrightarrow>
        \<not> suffix ''_info.csv'' filename \<and> \<not> sublist ''README'' filename
        \<and> (\<exists>df. outcome = Some df \<and> entry_rows (filename, outcome) = rows df
              \<and> ''striker'' \<in> set (columns df) \<and> ''bowler'' \<in> set (columns df)))
   \<and> (is_match_file good_name \<and> ''striker'' \<in> set (columns good)
        \<and> ''bowler'' \<in> set (columns good) \<and> ''bowler'' \<notin> set (columns bad) \<longrightarrow>
        rows (get_cleaned_data (Some [(good_name, Some good), (bad_name, Some bad)])) = rows good
        \<and> rows (get_cleaned_data (Some [(bad_name, Some bad), (good_name, Some good)])) = rows good)"
proof -
  have "accepted (filename, outcome) \<longrightarrow>
        \<not> suffix ''_info.csv'' filename \<and> \<not> sublist ''README'' filename
        \<and> (\<exists>df. outcome = Some df \<and> entry_rows (filename, outcome) = rows df
              \<and> ''striker'' \<in> set (columns df) \<and> ''bowler'' \<in> set (columns df))"
    by (auto simp: accepted_def is_match_file_def entry_rows_def split: option.splits)
  moreover have "rows (get_cleaned_data None :: 'r frame) = []"
    by (simp add: get_cleaned_data_def DataFrame_empty_def)
  moreover have "is_match_file good_name \<and> ''striker'' \<in> set (columns good)
        \<and> ''bowler'' \<in> set (columns good) \<and> ''bowler'' \<notin> set (columns bad) \<longrightarrow>
        rows (get_cleaned_data (Some [(good_name, Some good), (bad_name, Some bad)])) = rows good
        \<and> rows (get_cleaned_data (Some [(bad_name, Some bad), (good_name, Some good)])) = rows good"
    by (simp add: get_cleaned_data_rows accepted_def entry_rows_def)
  ultimately show ?thesis using get_cleaned_data_rows [of namelist] by blast
qed

theorem get_cleaned_data_accepts_witness:
  "is_match_file ''335982.csv''
   \<and> rows (get_cleaned_data (Some
        [(''335982.csv'', Some \<lparr>columns = [''ball'', ''striker'', ''bowler''], rows = [1, 2 :: nat]\<rparr>),
         (''335983.csv'', Some \<lparr>columns = [''ball'', ''striker''], rows = [3, 4]\<rparr>)])) = [1, 2]
   \<and> rows (get_cleaned_data (Some
        [(''README.txt'', None),
         (''335982_info.csv'', Some \<lparr>columns = [''striker'', ''bowler''], rows = [9]\<rparr>),
         (''335984.csv'', None),
         (''335982.csv'', Some \<lparr>columns = [''ball'', ''striker'', ''bowler''], rows = [1, 2 :: nat]\<rparr>)]))
       = [1, 2]"
proof -
  have n: "is_match_file ''335982.csv''" "\<not> is_match_file ''335982_info.csv''"
    "\<not> is_match_file ''README.txt''" "is_match_file ''335984.csv''"
    by (simp_all add: is_match_file_def suffix_to_prefix sublist_Cons_right)
  show ?thesis
    using get_cleaned_data_accepts [of
        "[(''README.txt'', None),
         (''335982_info.csv'', Some \<lparr>columns = [''striker'', ''bowler''], rows = [9]\<rparr>),
         (''335984.csv'', None),
         (''335982.csv'', Some \<lparr>columns = [''ball'', ''striker'', ''bowler''], rows = [1, 2 :: nat]\<rparr>)]"
        "''335982.csv''" "Some \<lparr>columns = [''ball'', ''striker'', ''bowler''], rows = [1, 2 :: nat]\<rparr>"
        "''335982.csv''" "\<lparr>columns = [''ball'', ''striker'', ''bowler''], rows = [1, 2 :: nat]\<rparr>"
        "\<lparr>columns = [''ball'', ''striker''], rows = [3, 4 :: nat]\<rparr>" "''335983.csv''"] n
    by (simp add: accepted_def entry_rows_def)
qed

end
